theory Spec2Isabelle
  imports Main
begin

section \<open>The request decode-and-validate pipeline of internal/request/request.go\<close>

text \<open>
  The Go package \<^verbatim>\<open>request\<close> has two methods on \<^verbatim>\<open>*Request\<close>:
  \<^verbatim>\<open>ParseQuery\<close>, which infers a typed value for every query parameter, and
  \<^verbatim>\<open>Validate\<close>, the fail-fast pipeline around it. Both are embedded below.
  The functions of the Go standard library they call (\<^verbatim>\<open>strconv\<close>,
  \<^verbatim>\<open>io\<close>, \<^verbatim>\<open>reflect\<close>) are not part of the repository; they are
  modelled after their documented behaviour, and what is numeric floating point or
  belongs to a caller-supplied collaborator is a parameter.
\<close>

subsection \<open>The strconv parsers\<close>

datatype strconv_err = ErrSyntax | ErrRange

definition isDigit :: "char \<Rightarrow> bool" where
  "isDigit c \<longleftrightarrow> c \<in> set ''0123456789''"

definition isHexLetter :: "char \<Rightarrow> bool" where
  "isHexLetter c \<longleftrightarrow> c \<in> set ''abcdefABCDEF''"

definition digitVal :: "char \<Rightarrow> nat" where
  "digitVal c = of_char c - 48"

text \<open>The value of a run of decimal digits, most significant first.\<close>

fun decimal :: "nat \<Rightarrow> string \<Rightarrow> nat" where
  "decimal n [] = n"
| "decimal n (c # cs) = decimal (n * 10 + digitVal c) cs"

text \<open>
  \<^verbatim>\<open>strconv.Atoi\<close>: an optional sign, then one or more decimal digits and nothing
  else (base 10 admits no underscores); a value outside the range of \<^verbatim>\<open>int\<close>
  is a range error. \<^verbatim>\<open>int\<close> is taken to be 64 bits wide. The caller only tests
  whether there was an error; for a string that is both ill-formed and too long the
  model reports the syntax error.
\<close>

definition intSize :: nat where
  "intSize = 64"

definition Atoi :: "string \<Rightarrow> strconv_err + int" where
  "Atoi s =
     (let (neg, ds) =
            (case s of
               [] \<Rightarrow> (False, s)
             | c # cs \<Rightarrow>
                 if c = CHR ''-'' then (True, cs)
                 else if c = CHR ''+'' then (False, cs)
                 else (False, s))
      in if ds = [] \<or> \<not> list_all isDigit ds then Inl ErrSyntax
         else let n = int (decimal 0 ds);
                  v = (if neg then - n else n)
              in if v < - (2 ^ (intSize - 1)) \<or> 2 ^ (intSize - 1) - 1 < v
                 then Inl ErrRange
                 else Inr v)"

text \<open>
  \<^verbatim>\<open>strconv.ParseBool\<close>: a switch over twelve spellings, an error otherwise.
\<close>

definition ParseBool :: "string \<Rightarrow> strconv_err + bool" where
  "ParseBool str =
     (if str \<in> set [''1'', ''t'', ''T'', ''TRUE'', ''true'', ''True''] then Inr True
      else if str \<in> set [''0'', ''f'', ''F'', ''FALSE'', ''false'', ''False''] then Inr False
      else Inl ErrSyntax)"

text \<open>
  \<^verbatim>\<open>strconv.ParseFloat(s, 64)\<close>. Its grammar is embedded as the scanner runs:
  \<^verbatim>\<open>special\<close> recognises the infinities and NaN, \<^verbatim>\<open>readFloat\<close> a decimal or
  hexadecimal literal, \<^verbatim>\<open>underscoreOK\<close> checks the digit separators. Each scanner
  returns how much of the string it did not consume; the parse succeeds only if nothing
  is left.
\<close>

definition toLowerASCII :: "char \<Rightarrow> char" where
  "toLowerASCII c =
     (case map_of (zip ''ABCDEFGHIJKLMNOPQRSTUVWXYZ'' ''abcdefghijklmnopqrstuvwxyz'') c of
        Some l \<Rightarrow> l
      | None \<Rightarrow> c)"

fun commonPrefixLenIgnoreCase :: "string \<Rightarrow> string \<Rightarrow> nat" where
  "commonPrefixLenIgnoreCase (c # s) (p # prefix) =
     (if toLowerASCII c = p then Suc (commonPrefixLenIgnoreCase s prefix) else 0)"
| "commonPrefixLenIgnoreCase _ _ = 0"

text \<open>The number of bytes \<^verbatim>\<open>special\<close> consumes, or \<open>None\<close> when it does not apply.\<close>

definition infinityLen :: "string \<Rightarrow> nat option" where
  "infinityLen s =
     (let n = commonPrefixLenIgnoreCase s ''infinity'';
          n' = (if 3 < n \<and> n < 8 then 3 else n)
      in if n' = 3 \<or> n' = 8 then Some n' else None)"

definition special :: "string \<Rightarrow> nat option" where
  "special s =
     (case s of
        [] \<Rightarrow> None
      | c # cs \<Rightarrow>
          if c = CHR ''+'' \<or> c = CHR ''-'' then map_option Suc (infinityLen cs)
          else if c = CHR ''i'' \<or> c = CHR ''I'' then infinityLen s
          else if c = CHR ''n'' \<or> c = CHR ''N'' then
            (if commonPrefixLenIgnoreCase s ''nan'' = 3 then Some 3 else None)
          else None)"

text \<open>
  The mantissa loop of \<^verbatim>\<open>readFloat\<close>: underscores are skipped, one point is allowed,
  digits (and hexadecimal letters in base 16) are counted. The result is whether a digit
  was seen, and the rest of the string from the first character that ends the loop.
\<close>

fun mantissa :: "bool \<Rightarrow> bool \<Rightarrow> bool \<Rightarrow> string \<Rightarrow> bool \<times> string" where
  "mantissa hex sawdot sawdigits [] = (sawdigits, [])"
| "mantissa hex sawdot sawdigits (c # cs) =
     (if c = CHR ''_'' then mantissa hex sawdot sawdigits cs
      else if c = CHR ''.'' then
        (if sawdot then (sawdigits, c # cs) else mantissa hex True sawdigits cs)
      else if isDigit c then mantissa hex sawdot True cs
      else if hex \<and> isHexLetter c then mantissa hex sawdot True cs
      else (sawdigits, c # cs))"

text \<open>
  The exponent of \<^verbatim>\<open>readFloat\<close>, from the character after the mantissa: \<open>None\<close>
  is a syntax error, otherwise the unconsumed rest.
\<close>

definition exponent :: "bool \<Rightarrow> string \<Rightarrow> string option" where
  "exponent hex s =
     (case s of
        [] \<Rightarrow> (if hex then None else Some s)
      | c # cs \<Rightarrow>
          if c \<in> set (if hex then ''pP'' else ''eE'') then
            (case cs of
               [] \<Rightarrow> None
             | d # ds \<Rightarrow>
                 let es = (if d = CHR ''+'' \<or> d = CHR ''-'' then ds else cs)
                 in (case es of
                       [] \<Rightarrow> None
                     | e # _ \<Rightarrow>
                         if isDigit e
                         then Some (dropWhile (\<lambda>x. isDigit x \<or> x = CHR ''_'') es)
                         else None))
          else if hex then None
          else Some s)"

text \<open>
  \<^verbatim>\<open>underscoreOK\<close>: an underscore must stand between two digits, the base prefix
  counting as a digit. \<open>saw\<close> is the class of the last character seen.
\<close>

datatype saw = SawStart | SawDigit | SawUnderscore | SawOther

fun underscoreScan :: "bool \<Rightarrow> saw \<Rightarrow> string \<Rightarrow> bool" where
  "underscoreScan hex saw [] = (saw \<noteq> SawUnderscore)"
| "underscoreScan hex saw (c # cs) =
     (if isDigit c \<or> hex \<and> isHexLetter c then underscoreScan hex SawDigit cs
      else if c = CHR ''_'' then
        (if saw \<noteq> SawDigit then False else underscoreScan hex SawUnderscore cs)
      else if saw = SawUnderscore then False
      else underscoreScan hex SawOther cs)"

definition underscoreOK :: "string \<Rightarrow> bool" where
  "underscoreOK s0 =
     (let s = (case s0 of
                 [] \<Rightarrow> s0
               | c # cs \<Rightarrow> if c = CHR ''-'' \<or> c = CHR ''+'' then cs else s0)
      in case s of
           a # b # rest \<Rightarrow>
             if a = CHR ''0'' \<and> b \<in> set ''bBoOxX''
             then underscoreScan (b \<in> set ''xX'') SawDigit rest
             else underscoreScan False SawStart s
         | _ \<Rightarrow> underscoreScan False SawStart s)"

text \<open>
  \<^verbatim>\<open>readFloat\<close>: sign, optional \<^verbatim>\<open>0x\<close> prefix (only when a third character
  follows), mantissa, exponent (mandatory in base 16), then the underscore check on the
  consumed prefix. \<open>None\<close> is \<^verbatim>\<open>ok == false\<close>, otherwise the unconsumed rest.
\<close>

definition readFloat :: "string \<Rightarrow> string option" where
  "readFloat s =
     (case s of
        [] \<Rightarrow> None
      | c # cs \<Rightarrow>
          let s1 = (if c = CHR ''+'' \<or> c = CHR ''-'' then cs else s);
              hex = (case s1 of
                       a # b # _ # _ \<Rightarrow> a = CHR ''0'' \<and> b \<in> set ''xX''
                     | _ \<Rightarrow> False);
              s2 = (if hex then drop 2 s1 else s1);
              (sawdigits, s3) = mantissa hex False False s2
          in if \<not> sawdigits then None
             else (case exponent hex s3 of
                     None \<Rightarrow> None
                   | Some rest \<Rightarrow>
                       let consumed = take (length s - length rest) s
                       in if CHR ''_'' \<in> set consumed \<and> \<not> underscoreOK consumed
                          then None
                          else Some rest))"

text \<open>Whether the whole string is a well-formed floating-point literal.\<close>

definition floatSyntax :: "string \<Rightarrow> bool" where
  "floatSyntax s =
     (case special s of
        Some n \<Rightarrow> n = length s
      | None \<Rightarrow> readFloat s = Some [])"

text \<open>
  The conversion of a well-formed literal to the nearest IEEE-754 double is floating
  point and is not modelled: it is the parameter \<open>f64\<close>, which gives the double, or
  \<open>None\<close> when the literal is out of range (\<^verbatim>\<open>ErrRange\<close>). \<open>'f\<close> is the type of
  doubles.
\<close>

definition ParseFloat :: "(string \<Rightarrow> 'f option) \<Rightarrow> string \<Rightarrow> strconv_err + 'f" where
  "ParseFloat f64 s =
     (if floatSyntax s
      then (case f64 s of None \<Rightarrow> Inl ErrRange | Some x \<Rightarrow> Inr x)
      else Inl ErrSyntax)"

subsection \<open>Request and ParseQuery\<close>

text \<open>
  A value of Go's \<^verbatim>\<open>any\<close> as the map \<^verbatim>\<open>Query\<close> can hold it: the four dynamic
  types \<^verbatim>\<open>ParseQuery\<close> stores, and \<open>AnyOther\<close> for every other dynamic value a
  caller or the decoder may have put there.
\<close>

datatype 'f any = AnyInt int | AnyFloat64 'f | AnyBool bool | AnyString string | AnyOther string

text \<open>\<^verbatim>\<open>Query map[string]any\<close>; \<open>None\<close> is the nil map.\<close>

record 'f Request =
  Query :: "(string \<rightharpoonup> 'f any) option"

text \<open>
  The request body: what draining the stream yields (a read fault or the bytes), how
  often it was drained, and whether it has been closed. The stream is there:
  \<^verbatim>\<open>net/http\<close> gives every request a server receives a body.
\<close>

record body =
  content :: "string + string"
  reads :: nat
  closed :: bool

text \<open>
  Of \<^verbatim>\<open>*http.Request\<close> the code uses \<^verbatim>\<open>URL.Query()\<close>, a map from parameter name
  to the list of its raw values, and \<^verbatim>\<open>Body\<close>. The map is given as the list of its
  entries in the order the \<^verbatim>\<open>range\<close> loop visits them, which Go leaves open.
  \<^verbatim>\<open>URL.Query()\<close> gives every key at least one value; the type allows none.
\<close>

record http_Request =
  URL_Query :: "(string \<times> string list) list"
  Body :: body

datatype panic = IndexOutOfRange

text \<open>The \<^verbatim>\<open>if\<close>/\<^verbatim>\<open>else if\<close> chain of the loop body, lines 43 to 55.\<close>

definition inferValue :: "(string \<Rightarrow> 'f option) \<Rightarrow> string \<Rightarrow> 'f any" where
  "inferValue f64 v =
     (case Atoi v of
        Inr intValue \<Rightarrow> AnyInt intValue
      | Inl _ \<Rightarrow>
          (case ParseFloat f64 v of
             Inr floatValue \<Rightarrow> AnyFloat64 floatValue
           | Inl _ \<Rightarrow>
               (case ParseBool v of
                  Inr boolValue \<Rightarrow> AnyBool boolValue
                | Inl _ \<Rightarrow> AnyString v)))"

text \<open>
  The \<^verbatim>\<open>range\<close> loop, lines 38 to 56. \<^verbatim>\<open>values[0]\<close> on an empty slice is a
  run-time panic, which leaves the map as the earlier iterations made it.
\<close>

fun rangeQueryParams ::
  "(string \<Rightarrow> 'f option) \<Rightarrow> (string \<rightharpoonup> 'f any) \<Rightarrow> (string \<times> string list) list
   \<Rightarrow> panic option \<times> (string \<rightharpoonup> 'f any)" where
  "rangeQueryParams f64 m [] = (None, m)"
| "rangeQueryParams f64 m ((key, values) # queryParams) =
     (case values of
        [] \<Rightarrow> (Some IndexOutOfRange, m)
      | v # _ \<Rightarrow> rangeQueryParams f64 (m(key \<mapsto> inferValue f64 v)) queryParams)"

text \<open>
  \<^verbatim>\<open>ParseQuery\<close>, lines 28 to 57: a nil map is replaced by an empty one, then the
  loop runs. The method mutates its receiver; the model returns the receiver's new
  value, and the panic if there was one.
\<close>

definition ParseQuery ::
  "(string \<Rightarrow> 'f option) \<Rightarrow> 'f Request \<Rightarrow> http_Request \<Rightarrow> panic option \<times> 'f Request" where
  "ParseQuery f64 r req =
     (let m = (case Query r of None \<Rightarrow> Map.empty | Some q \<Rightarrow> q);
          (p, m') = rangeQueryParams f64 m (URL_Query req)
      in (p, r\<lparr>Query := Some m'\<rparr>))"

subsection \<open>Validate\<close>

text \<open>
  The interface value \<^verbatim>\<open>request\<close> as \<^verbatim>\<open>reflect.ValueOf\<close> sees it: the nil
  interface, a value that is not a pointer, a nil pointer, or a pointer to an entity.
\<close>

datatype form_request = NilInterface | NonPointer | NilPointer | Pointer

datatype reflect_Kind = Invalid | Ptr | OtherKind

fun Kind :: "form_request \<Rightarrow> reflect_Kind" where
  "Kind NilInterface = Invalid"
| "Kind NonPointer = OtherKind"
| "Kind NilPointer = Ptr"
| "Kind Pointer = Ptr"

text \<open>\<^verbatim>\<open>IsNil\<close> is evaluated only behind \<^verbatim>\<open>Kind() != reflect.Ptr ||\<close>.\<close>

fun IsNil :: "form_request \<Rightarrow> bool" where
  "IsNil NilPointer = True"
| "IsNil _ = False"

text \<open>
  The error \<^verbatim>\<open>Validate\<close> returns. Every collaborator's error is returned as it is;
  the constructor records which \<^verbatim>\<open>return\<close> statement returned it, and carries the
  error's message.
\<close>

datatype error =
    InvalidTargetError string
  | IOError string
  | DecodeError string
  | PrepareError string
  | HookError string
  | ValidationError string

definition errInvalidTarget :: string where
  "errInvalidTarget = ''se espera un puntero al tipo que implementa FormRequest''"

definition io_ReadAll :: "body \<Rightarrow> (string + string) \<times> body" where
  "io_ReadAll b = (content b, b\<lparr>reads := Suc (reads b)\<rparr>)"

definition Close :: "body \<Rightarrow> body" where
  "Close b = b\<lparr>closed := True\<rparr>"

text \<open>
  The target entity, the receiver and whatever else the hooks reach live in a heap
  \<open>'w\<close>. The calls \<^verbatim>\<open>Validate\<close> makes on the target are state transformers on
  the heap: \<^verbatim>\<open>json.Unmarshal(body, request)\<close>, the three methods of the target, and
  \<^verbatim>\<open>validation.Struct(request, rules)\<close> of the package \<^verbatim>\<open>pkg/validation\<close>.
  They are parameters: any behaviour is allowed.
\<close>

record ('w, 'rules) collaborators =
  json_Unmarshal :: "string \<Rightarrow> 'w \<Rightarrow> string option \<times> 'w"
  PrepareForValidation :: "'w \<Rightarrow> string option \<times> 'w"
  WithValidator :: "'w \<Rightarrow> string option \<times> 'w"
  Rules :: "'w \<Rightarrow> 'rules \<times> 'w"
  validation_Struct :: "'w \<Rightarrow> 'rules \<Rightarrow> string option \<times> 'w"

text \<open>
  The receiver \<^verbatim>\<open>r *Request\<close> is a pointer into the heap: how to read the
  \<^verbatim>\<open>Request\<close> it points to and how to write it. It may point into the target
  entity (the embedded \<^verbatim>\<open>Request\<close>) or elsewhere.
\<close>

record ('w, 'f) ptr =
  load :: "'w \<Rightarrow> 'f Request"
  store :: "'f Request \<Rightarrow> 'w \<Rightarrow> 'w"

datatype call =
    CallReadAll
  | CallClose
  | CallUnmarshal
  | CallPrepareForValidation
  | CallWithValidator
  | CallRules
  | CallStruct
  | CallParseQuery

datatype completion = Returned "error option" | Panicked panic

text \<open>
  What an invocation leaves behind: how it completed, the heap, the body stream, and
  the calls it made, in order.
\<close>

record 'w outcome =
  returned :: completion
  heap_after :: 'w
  body_after :: body
  calls :: "call list"

text \<open>
  \<^verbatim>\<open>Validate\<close>, lines 59 to 98. \<^verbatim>\<open>defer req.Body.Close()\<close> is reached only
  after the target check and a successful read; from there on the close runs at every
  exit, a panic included.
\<close>

definition Validate ::
  "(string \<Rightarrow> 'f option) \<Rightarrow> ('w, 'rules) collaborators \<Rightarrow> ('w, 'f) ptr \<Rightarrow> form_request
   \<Rightarrow> http_Request \<Rightarrow> 'w \<Rightarrow> 'w outcome" where
  "Validate f64 c r request req w =
     (if Kind request \<noteq> Ptr \<or> IsNil request then
        \<lparr>returned = Returned (Some (InvalidTargetError errInvalidTarget)),
         heap_after = w, body_after = Body req, calls = []\<rparr>
      else
        (case io_ReadAll (Body req) of
           (Inl err, b1) \<Rightarrow>
             \<lparr>returned = Returned (Some (IOError err)),
              heap_after = w, body_after = b1, calls = [CallReadAll]\<rparr>
         | (Inr body, b1) \<Rightarrow>
             (let (res, w', cs) =
                (case json_Unmarshal c body w of
                   (Some err, w1) \<Rightarrow>
                     (Returned (Some (DecodeError err)), w1, [CallUnmarshal])
                 | (None, w1) \<Rightarrow>
                 (case PrepareForValidation c w1 of
                   (Some err, w2) \<Rightarrow>
                     (Returned (Some (PrepareError err)), w2,
                      [CallUnmarshal, CallPrepareForValidation])
                 | (None, w2) \<Rightarrow>
                 (case WithValidator c w2 of
                   (Some err, w3) \<Rightarrow>
                     (Returned (Some (HookError err)), w3,
                      [CallUnmarshal, CallPrepareForValidation, CallWithValidator])
                 | (None, w3) \<Rightarrow>
                 (case Rules c w3 of
                   (rules, w4) \<Rightarrow>
                 (case validation_Struct c w4 rules of
                   (Some err, w5) \<Rightarrow>
                     (Returned (Some (ValidationError err)), w5,
                      [CallUnmarshal, CallPrepareForValidation, CallWithValidator,
                       CallRules, CallStruct])
                 | (None, w5) \<Rightarrow>
                 (case ParseQuery f64 (load r w5) req of
                   (p, r') \<Rightarrow>
                     ((case p of None \<Rightarrow> Returned None | Some pn \<Rightarrow> Panicked pn),
                      store r r' w5,
                      [CallUnmarshal, CallPrepareForValidation, CallWithValidator,
                       CallRules, CallStruct, CallParseQuery])))))))
              in \<lparr>returned = res, heap_after = w', body_after = Close b1,
                  calls = CallReadAll # cs @ [CallClose]\<rparr>)))"

subsection \<open>A concrete heap\<close>

text \<open>
  An entity with the embedded \<^verbatim>\<open>Request\<close> and one field of its own, next to a
  \<^verbatim>\<open>Request\<close> that stands alone; doubles are written as their literals. The decoder
  accepts a body that opens with a brace and keeps it as the name, the hooks and the
  validator accept everything.
\<close>

record example_heap =
  entity_Request :: "string Request"
  entity_name :: string
  lone_Request :: "string Request"

definition embedded :: "(example_heap, string) ptr" where
  "embedded = \<lparr>load = entity_Request, store = (\<lambda>q w. w\<lparr>entity_Request := q\<rparr>)\<rparr>"

definition lone :: "(example_heap, string) ptr" where
  "lone = \<lparr>load = lone_Request, store = (\<lambda>q w. w\<lparr>lone_Request := q\<rparr>)\<rparr>"

definition example_collaborators :: "(example_heap, string list) collaborators" where
  "example_collaborators =
     \<lparr>json_Unmarshal =
        (\<lambda>b w. case b of
                  [] \<Rightarrow> (Some ''unexpected end of JSON input'', w)
                | x # _ \<Rightarrow> if x = CHR ''{'' then (None, w\<lparr>entity_name := b\<rparr>)
                           else (Some ''invalid character'', w)),
      PrepareForValidation = (\<lambda>w. (None, w)),
      WithValidator = (\<lambda>w. (None, w)),
      Rules = (\<lambda>w. ([''name''], w)),
      validation_Struct = (\<lambda>w rules. (None, w))\<rparr>"

definition example_heap0 :: example_heap where
  "example_heap0 =
     \<lparr>entity_Request = \<lparr>Query = None\<rparr>, entity_name = [], lone_Request = \<lparr>Query = None\<rparr>\<rparr>"

definition example_request :: "string \<Rightarrow> http_Request" where
  "example_request b =
     \<lparr>URL_Query = [(''age'', [''30'']), (''active'', [''true'', ''0'']),
                   (''ratio'', [''1.5'']), (''tag'', [''x'']), (''page'', [''1''])],
      Body = \<lparr>content = Inr b, reads = 0, closed = False\<rparr>\<rparr>"

text \<open>
  A decoder that meets a body whose object carries a \<^verbatim>\<open>Query\<close> key and an empty
  name: \<^verbatim>\<open>encoding/json\<close> fills the exported field \<^verbatim>\<open>Query\<close> of the embedded
  \<^verbatim>\<open>Request\<close> as it fills any other. The validator requires a name.
\<close>

definition strict_collaborators :: "(example_heap, string list) collaborators" where
  "strict_collaborators =
     \<lparr>json_Unmarshal =
        (\<lambda>b w. case b of
                  [] \<Rightarrow> (Some ''unexpected end of JSON input'', w)
                | x # _ \<Rightarrow>
                    if x = CHR ''{''
                    then (None, w\<lparr>entity_Request :=
                                     \<lparr>Query = Some [''role'' \<mapsto> AnyString ''admin'']\<rparr>,
                                   entity_name := []\<rparr>)
                    else (Some ''invalid character'', w)),
      PrepareForValidation = (\<lambda>w. (None, w)),
      WithValidator = (\<lambda>w. (None, w)),
      Rules = (\<lambda>w. ([''name''], w)),
      validation_Struct =
        (\<lambda>w rules. if entity_name w = [] then (Some ''name is required'', w)
                    else (None, w))\<rparr>"

section \<open>Properties of ParseQuery\<close>

subsection \<open>The range loop\<close>

text \<open>
  A key the loop does not visit keeps its entry; the loop's effect on a map is to
  overlay it with what the loop makes of the empty map, so a second pass changes nothing;
  the loop panics only on an empty list of values; and a key visited once ends up with
  the value inferred from the first of its raw values.
\<close>

lemma rangeQueryParams_absent:
  "k \<notin> fst ` set qs \<Longrightarrow> snd (rangeQueryParams f64 m qs) k = m k"
proof (induction qs arbitrary: m)
  case Nil
  show ?case by simp
next
  case (Cons q qs)
  obtain key vs where q: "q = (key, vs)" by (cases q)
  from Cons.prems q have "k \<noteq> key" and rest: "k \<notin> fst ` set qs" by auto
  show ?case
  proof (cases vs)
    case Nil
    with q show ?thesis by simp
  next
    case (Cons v vs')
    with q Cons.IH [OF rest] \<open>k \<noteq> key\<close> show ?thesis by simp
  qed
qed

lemma rangeQueryParams_add:
  "rangeQueryParams f64 m qs =
     (fst (rangeQueryParams f64 Map.empty qs), m ++ snd (rangeQueryParams f64 Map.empty qs))"
proof (induction qs arbitrary: m)
  case Nil
  show ?case by simp
next
  case (Cons q qs)
  obtain key vs where q: "q = (key, vs)" by (cases q)
  show ?case
  proof (cases vs)
    case Nil
    with q show ?thesis by simp
  next
    case (Cons v vs')
    let ?x = "inferValue f64 v"
    have a: "rangeQueryParams f64 (m(key \<mapsto> ?x)) qs =
        (fst (rangeQueryParams f64 Map.empty qs),
         m(key \<mapsto> ?x) ++ snd (rangeQueryParams f64 Map.empty qs))"
      by (rule Cons.IH)
    have b: "rangeQueryParams f64 [key \<mapsto> ?x] qs =
        (fst (rangeQueryParams f64 Map.empty qs),
         [key \<mapsto> ?x] ++ snd (rangeQueryParams f64 Map.empty qs))"
      by (rule Cons.IH)
    have c: "m ++ ([key \<mapsto> ?x] ++ snd (rangeQueryParams f64 Map.empty qs)) =
        m(key \<mapsto> ?x) ++ snd (rangeQueryParams f64 Map.empty qs)"
      by simp
    from q Cons a b c show ?thesis by simp
  qed
qed

lemma rangeQueryParams_twice:
  "rangeQueryParams f64 (snd (rangeQueryParams f64 m qs)) qs = rangeQueryParams f64 m qs"
proof -
  let ?p = "fst (rangeQueryParams f64 Map.empty qs)"
  let ?g = "snd (rangeQueryParams f64 Map.empty qs)"
  have "?g ++ ?g = ?g" by (simp add: map_add_subsumed1)
  then have g: "(m ++ ?g) ++ ?g = m ++ ?g"
    by (simp only: map_add_assoc [symmetric])
  have once: "rangeQueryParams f64 m qs = (?p, m ++ ?g)"
    by (rule rangeQueryParams_add)
  have "rangeQueryParams f64 (m ++ ?g) qs = (?p, (m ++ ?g) ++ ?g)"
    by (rule rangeQueryParams_add)
  with g once show ?thesis by simp
qed

lemma rangeQueryParams_no_panic:
  "\<forall>(k, vs) \<in> set qs. vs \<noteq> [] \<Longrightarrow> fst (rangeQueryParams f64 m qs) = None"
proof (induction qs arbitrary: m)
  case Nil
  show ?case by simp
next
  case (Cons q qs)
  obtain key vs where q: "q = (key, vs)" by (cases q)
  with Cons.prems obtain v vs' where vs: "vs = v # vs'" by (cases vs) auto
  from Cons.prems have "\<forall>(k, vs) \<in> set qs. vs \<noteq> []" by simp
  from Cons.IH [OF this] q vs show ?case by simp
qed

lemma rangeQueryParams_lookup:
  "\<forall>(k, vs) \<in> set qs. vs \<noteq> [] \<Longrightarrow> distinct (map fst qs) \<Longrightarrow> (k, v # vs) \<in> set qs \<Longrightarrow>
   snd (rangeQueryParams f64 m qs) k = Some (inferValue f64 v)"
proof (induction qs arbitrary: m)
  case Nil
  then show ?case by simp
next
  case (Cons q qs)
  obtain key ws where q: "q = (key, ws)" by (cases q)
  with Cons.prems(1) obtain w ws' where ws: "ws = w # ws'" by (cases ws) auto
  from Cons.prems have ne: "\<forall>(k, vs) \<in> set qs. vs \<noteq> []" and d: "distinct (map fst qs)"
    by simp_all
  show ?case
  proof (cases "(k, v # vs) \<in> set qs")
    case True
    from Cons.IH [OF ne d True] q ws show ?thesis by simp
  next
    case False
    with Cons.prems(3) q ws have eq: "key = k" "w = v" by auto
    from Cons.prems(2) q eq have "k \<notin> fst ` set qs" by simp
    from rangeQueryParams_absent [OF this, of f64 "m(k \<mapsto> inferValue f64 v)"] q ws eq
    show ?thesis by simp
  qed
qed

lemma ParseQuery_Query:
  "Query (snd (ParseQuery f64 r req)) =
     Some (snd (rangeQueryParams f64 (case Query r of None \<Rightarrow> Map.empty | Some q \<Rightarrow> q)
       (URL_Query req)))"
  by (simp add: ParseQuery_def split: prod.split)

lemma ParseQuery_panic:
  "fst (ParseQuery f64 r req) =
     fst (rangeQueryParams f64 (case Query r of None \<Rightarrow> Map.empty | Some q \<Rightarrow> q)
       (URL_Query req))"
  by (simp add: ParseQuery_def split: prod.split)

subsection \<open>Evaluating the parsers\<close>

lemmas strconv_eval =
  floatSyntax_def special_def readFloat_def infinityLen_def toLowerASCII_def isDigit_def
  isHexLetter_def exponent_def underscoreOK_def Atoi_def digitVal_def intSize_def
  ParseBool_def ParseFloat_def

lemma ParseBool_Inr:
  "ParseBool v = Inr b \<Longrightarrow>
   v \<in> set [''1'', ''t'', ''T'', ''TRUE'', ''true'', ''True'',
            ''0'', ''f'', ''F'', ''FALSE'', ''false'', ''False'']"
  by (auto simp: ParseBool_def split: if_splits)

lemma inferValue_true_spellings:
  "inferValue f64 ''t'' = AnyBool True" "inferValue f64 ''T'' = AnyBool True"
  "inferValue f64 ''TRUE'' = AnyBool True" "inferValue f64 ''true'' = AnyBool True"
  "inferValue f64 ''True'' = AnyBool True"
  by (simp_all add: inferValue_def strconv_eval)

lemma inferValue_false_spellings:
  "inferValue f64 ''f'' = AnyBool False" "inferValue f64 ''F'' = AnyBool False"
  "inferValue f64 ''FALSE'' = AnyBool False" "inferValue f64 ''false'' = AnyBool False"
  "inferValue f64 ''False'' = AnyBool False"
  by (simp_all add: inferValue_def strconv_eval)

subsection \<open>Type inference\<close>

text \<open>
  Claim C4. Let the query hold the key \<open>key\<close> once, with the first raw value \<open>v\<close>,
  and let \<open>v\<close> be accepted both by \<^verbatim>\<open>strconv.Atoi\<close> and by
  \<^verbatim>\<open>strconv.ParseBool\<close>. Then \<^verbatim>\<open>ParseQuery\<close> stores the integer under \<open>key\<close>,
  and no boolean: the integer check runs first.
\<close>

theorem integer_wins_over_boolean:
  assumes "\<forall>(k, vs) \<in> set (URL_Query req). vs \<noteq> []"
    and "distinct (map fst (URL_Query req))"
    and "(key, v # vs) \<in> set (URL_Query req)"
    and "Atoi v = Inr i" and "ParseBool v = Inr b"
  shows "\<exists>m. Query (snd (ParseQuery f64 r req)) = Some m \<and> m key = Some (AnyInt i)
           \<and> (\<forall>b'. m key \<noteq> Some (AnyBool b'))"
proof -
  have "inferValue f64 v = AnyInt i"
    using assms(4) by (simp add: inferValue_def)
  with rangeQueryParams_lookup [OF assms(1-3), of f64] show ?thesis
    by (simp add: ParseQuery_Query)
qed

theorem integer_wins_over_boolean_witness:
  "distinct (map fst (URL_Query (example_request ''{}'')))
   \<and> (''page'', [''1'']) \<in> set (URL_Query (example_request ''{}''))
   \<and> Atoi ''1'' = Inr 1 \<and> ParseBool ''1'' = Inr True
   \<and> (\<exists>m. Query (snd (ParseQuery Some \<lparr>Query = None\<rparr> (example_request ''{}''))) = Some m
         \<and> m ''page'' = Some (AnyInt 1) \<and> (\<forall>b'. m ''page'' \<noteq> Some (AnyBool b')))"
proof -
  have h1: "\<forall>(k, vs) \<in> set (URL_Query (example_request ''{}'')). vs \<noteq> []"
    by (simp add: example_request_def)
  have h2: "distinct (map fst (URL_Query (example_request ''{}'')))"
    by (simp add: example_request_def)
  have h3: "(''page'', [''1'']) \<in> set (URL_Query (example_request ''{}''))"
    by (simp add: example_request_def)
  have h4: "Atoi ''1'' = Inr 1"
    by (simp add: strconv_eval)
  have h5: "ParseBool ''1'' = Inr True"
    by (simp add: ParseBool_def)
  have ex: "\<exists>m. Query (snd (ParseQuery Some \<lparr>Query = None\<rparr> (example_request ''{}''))) = Some m
         \<and> m ''page'' = Some (AnyInt 1) \<and> (\<forall>b'. m ''page'' \<noteq> Some (AnyBool b'))"
    by (rule integer_wins_over_boolean [OF h1 h2 h3 h4 h5])
  show ?thesis
    by (rule conjI [OF h2 conjI [OF h3 conjI [OF h4 conjI [OF h5 ex]]]])
qed

text \<open>
  Claim C5. The inference gives every raw value one of the four variants integer, float,
  boolean and string, the string being the raw value itself; the empty value becomes the
  string variant; and \<^verbatim>\<open>ParseQuery\<close> completes without a panic on every query
  whose keys all have a value.
\<close>

theorem inference_total:
  "((\<exists>i. inferValue f64 v = AnyInt i) \<or> (\<exists>x. inferValue f64 v = AnyFloat64 x)
      \<or> (\<exists>b. inferValue f64 v = AnyBool b) \<or> inferValue f64 v = AnyString v)
   \<and> inferValue f64 [] = AnyString []
   \<and> ((\<forall>(k, vs) \<in> set (URL_Query req). vs \<noteq> []) \<longrightarrow> fst (ParseQuery f64 r req) = None)"
proof (intro conjI impI)
  show "(\<exists>i. inferValue f64 v = AnyInt i) \<or> (\<exists>x. inferValue f64 v = AnyFloat64 x)
      \<or> (\<exists>b. inferValue f64 v = AnyBool b) \<or> inferValue f64 v = AnyString v"
    by (simp add: inferValue_def split: sum.split)
  show "inferValue f64 [] = AnyString []"
    by (simp add: inferValue_def strconv_eval)
  assume "\<forall>(k, vs) \<in> set (URL_Query req). vs \<noteq> []"
  then show "fst (ParseQuery f64 r req) = None"
    by (simp only: ParseQuery_panic rangeQueryParams_no_panic)
qed

theorem inference_total_witness:
  "fst (ParseQuery Some \<lparr>Query = None\<rparr> (example_request ''{}'')) = None
   \<and> inferValue Some [] = AnyString []"
proof -
  have h: "\<forall>(k, vs) \<in> set (URL_Query (example_request ''{}'')). vs \<noteq> []"
    by (simp add: example_request_def)
  from inference_total [of Some "[]" "example_request ''{}''" "\<lparr>Query = None\<rparr>"] h
  show ?thesis by blast
qed

text \<open>
  Claim C8. Running \<^verbatim>\<open>ParseQuery\<close> a second time on the same request, from the
  receiver the first run left, gives the same receiver (and the same completion) as the
  first run.
\<close>

theorem ParseQuery_idempotent:
  "ParseQuery f64 (snd (ParseQuery f64 r req)) req = ParseQuery f64 r req"
proof -
  let ?m = "case Query r of None \<Rightarrow> Map.empty | Some q \<Rightarrow> q"
  obtain p m' where one: "rangeQueryParams f64 ?m (URL_Query req) = (p, m')"
    by (cases "rangeQueryParams f64 ?m (URL_Query req)")
  from rangeQueryParams_twice [of f64 ?m "URL_Query req"] one
  have two: "rangeQueryParams f64 m' (URL_Query req) = (p, m')" by simp
  from one two show ?thesis by (simp add: ParseQuery_def)
qed

theorem ParseQuery_idempotent_witness:
  "ParseQuery Some (snd (ParseQuery Some \<lparr>Query = None\<rparr> (example_request ''{}'')))
     (example_request ''{}'')
   = ParseQuery Some \<lparr>Query = None\<rparr> (example_request ''{}'')"
  by (rule ParseQuery_idempotent)

text \<open>
  Claim C9. \<^verbatim>\<open>ParseQuery\<close> merges into the map it finds: a key that is not in the
  request's query keeps the entry it had; a nil map is treated as the empty map; and the
  map is never nil afterwards.
\<close>

theorem ParseQuery_merges:
  "(\<forall>m k. Query r = Some m \<and> k \<notin> fst ` set (URL_Query req) \<longrightarrow>
      (\<exists>m'. Query (snd (ParseQuery f64 r req)) = Some m' \<and> m' k = m k))
   \<and> (Query r = None \<longrightarrow>
        ParseQuery f64 r req = ParseQuery f64 (r\<lparr>Query := Some Map.empty\<rparr>) req)
   \<and> Query (snd (ParseQuery f64 r req)) \<noteq> None"
proof (intro conjI allI impI)
  fix m k
  assume "Query r = Some m \<and> k \<notin> fst ` set (URL_Query req)"
  then show "\<exists>m'. Query (snd (ParseQuery f64 r req)) = Some m' \<and> m' k = m k"
    by (simp add: ParseQuery_Query rangeQueryParams_absent)
next
  assume "Query r = None"
  then show "ParseQuery f64 r req = ParseQuery f64 (r\<lparr>Query := Some Map.empty\<rparr>) req"
    by (simp add: ParseQuery_def)
next
  show "Query (snd (ParseQuery f64 r req)) \<noteq> None"
    by (simp add: ParseQuery_Query)
qed

theorem ParseQuery_merges_witness:
  "''lang'' \<notin> fst ` set (URL_Query (example_request ''{}''))
   \<and> (\<exists>m'. Query (snd (ParseQuery Some \<lparr>Query = Some [''lang'' \<mapsto> AnyOther ''nil'']\<rparr>
               (example_request ''{}''))) = Some m'
          \<and> m' ''lang'' = Some (AnyOther ''nil''))
   \<and> ParseQuery Some \<lparr>Query = None\<rparr> (example_request ''{}'')
       = ParseQuery Some \<lparr>Query = Some Map.empty\<rparr> (example_request ''{}'')"
proof -
  have h: "''lang'' \<notin> fst ` set (URL_Query (example_request ''{}''))"
    by (simp add: example_request_def)
  have a: "Query \<lparr>Query = Some [''lang'' \<mapsto> AnyOther ''nil'']\<rparr>
             = Some [''lang'' \<mapsto> AnyOther ''nil'']"
    by simp
  from ParseQuery_merges [of "\<lparr>Query = Some [''lang'' \<mapsto> AnyOther ''nil'']\<rparr>"
      "example_request ''{}''" Some] h a
  have one: "\<exists>m'. Query (snd (ParseQuery Some \<lparr>Query = Some [''lang'' \<mapsto> AnyOther ''nil'']\<rparr>
               (example_request ''{}''))) = Some m'
          \<and> m' ''lang'' = Some (AnyOther ''nil'')"
    by fastforce
  from ParseQuery_merges [of "\<lparr>Query = None\<rparr>" "example_request ''{}''" Some]
  have two: "ParseQuery Some \<lparr>Query = None\<rparr> (example_request ''{}'')
       = ParseQuery Some \<lparr>Query = Some Map.empty\<rparr> (example_request ''{}'')"
    by simp
  from h one two show ?thesis by blast
qed

text \<open>
  Claim C10. A raw value is inferred as a boolean exactly when it is one of the ten
  spellings below. \<^verbatim>\<open>strconv.ParseBool\<close> also accepts \<^verbatim>\<open>1\<close> and \<^verbatim>\<open>0\<close>,
  but these are inferred as the integers 1 and 0.
\<close>

theorem boolean_spellings:
  "((\<exists>b. inferValue f64 v = AnyBool b) \<longleftrightarrow>
      v \<in> set [''t'', ''T'', ''TRUE'', ''true'', ''True'',
               ''f'', ''F'', ''FALSE'', ''false'', ''False''])
   \<and> ParseBool ''1'' = Inr True \<and> ParseBool ''0'' = Inr False
   \<and> inferValue f64 ''1'' = AnyInt 1 \<and> inferValue f64 ''0'' = AnyInt 0"
proof (intro conjI iffI)
  assume "\<exists>b. inferValue f64 v = AnyBool b"
  then obtain b where b: "inferValue f64 v = AnyBool b" ..
  then have pb: "ParseBool v = Inr b" and ai: "\<exists>e. Atoi v = Inl e"
    by (auto simp: inferValue_def split: sum.splits)
  have "Atoi ''1'' = Inr 1" "Atoi ''0'' = Inr 0" by (simp_all add: strconv_eval)
  with ai have "v \<noteq> ''1''" "v \<noteq> ''0''" by auto
  with ParseBool_Inr [OF pb]
  show "v \<in> set [''t'', ''T'', ''TRUE'', ''true'', ''True'',
               ''f'', ''F'', ''FALSE'', ''false'', ''False'']"
    by simp
next
  assume "v \<in> set [''t'', ''T'', ''TRUE'', ''true'', ''True'',
               ''f'', ''F'', ''FALSE'', ''false'', ''False'']"
  then have "v = ''t'' \<or> v = ''T'' \<or> v = ''TRUE'' \<or> v = ''true'' \<or> v = ''True''
    \<or> v = ''f'' \<or> v = ''F'' \<or> v = ''FALSE'' \<or> v = ''false'' \<or> v = ''False''"
    by (simp only: list.set insert_iff empty_iff simp_thms)
  then show "\<exists>b. inferValue f64 v = AnyBool b"
    by (elim disjE)
      (auto simp only: inferValue_true_spellings inferValue_false_spellings)
next
  show "ParseBool ''1'' = Inr True" by (simp add: ParseBool_def)
  show "ParseBool ''0'' = Inr False" by (simp add: ParseBool_def)
  show "inferValue f64 ''1'' = AnyInt 1" by (simp add: inferValue_def strconv_eval)
  show "inferValue f64 ''0'' = AnyInt 0" by (simp add: inferValue_def strconv_eval)
qed

theorem boolean_spellings_witness:
  "inferValue Some ''true'' = AnyBool True \<and> inferValue Some ''1'' = AnyInt 1
   \<and> (\<forall>b. inferValue Some ''yes'' \<noteq> AnyBool b)"
proof -
  have "\<exists>b. inferValue Some ''true'' = AnyBool b"
    using boolean_spellings [of Some "''true''"] by simp
  moreover have "\<And>b. ParseBool ''true'' = Inr b \<Longrightarrow> b"
    by (simp add: ParseBool_def)
  ultimately have t: "inferValue Some ''true'' = AnyBool True"
    by (auto simp: inferValue_def split: sum.splits)
  have y: "\<forall>b. inferValue Some ''yes'' \<noteq> AnyBool b"
    using boolean_spellings [of Some "''yes''"] by simp
  from t y boolean_spellings [of Some "''yes''"] show ?thesis by simp
qed

section \<open>Properties of Validate\<close>

lemmas example_eval =
  example_collaborators_def example_heap0_def example_request_def embedded_def lone_def
  Validate_def ParseQuery_def io_ReadAll_def Close_def inferValue_def

text \<open>
  Claim C1, amended. When the target is a non-nil pointer and reading the body succeeds,
  the body has been read once and is closed when \<^verbatim>\<open>Validate\<close> completes, whatever
  the later stages do; the close is the last call made.
\<close>

theorem Validate_closes_body_once_read:
  assumes "request = Pointer" and "content (Body req) = Inr bytes"
  shows "closed (body_after (Validate f64 c r request req w))
         \<and> reads (body_after (Validate f64 c r request req w)) = Suc (reads (Body req))
         \<and> last (calls (Validate f64 c r request req w)) = CallClose"
  using assms
  by (simp add: Validate_def io_ReadAll_def Close_def split: prod.split option.split)

theorem Validate_closes_body_once_read_witness:
  "content (Body (example_request ''{}'')) = Inr ''{}''
   \<and> closed (body_after
        (Validate Some example_collaborators embedded Pointer (example_request ''{}'')
           example_heap0))"
proof -
  have h: "content (Body (example_request ''{}'')) = Inr ''{}''"
    by (simp add: example_request_def)
  from Validate_closes_body_once_read [OF refl h, of Some example_collaborators embedded
      example_heap0] h
  show ?thesis by simp
qed

text \<open>
  Claim C1 as stated fails: with a nil interface as target, \<^verbatim>\<open>Validate\<close> returns
  the invalid-target error before the deferred close is registered, and the body is
  still open.
\<close>

theorem body_left_open_on_nil_interface:
  "returned (Validate Some example_collaborators embedded NilInterface
       (example_request ''{}'') example_heap0)
     = Returned (Some (InvalidTargetError errInvalidTarget))
   \<and> \<not> closed (body_after (Validate Some example_collaborators embedded NilInterface
       (example_request ''{}'') example_heap0))"
  by (simp add: Validate_def example_request_def)

text \<open>
  Claim C2, amended. When the target is a non-nil pointer, the body is read and decoded,
  both hooks and the validator succeed, and every query key has a value, then
  \<^verbatim>\<open>Validate\<close> returns nil and the heap is the one the validator left, with the
  receiver \<open>r\<close> replaced by what \<^verbatim>\<open>ParseQuery\<close> makes of it. The inferred
  entries go to the \<^verbatim>\<open>Request\<close> that \<^verbatim>\<open>Validate\<close> was called on.
\<close>

theorem Validate_success_merges_into_receiver:
  assumes "request = Pointer"
    and "content (Body req) = Inr bytes"
    and "json_Unmarshal c bytes w = (None, w1)"
    and "PrepareForValidation c w1 = (None, w2)"
    and "WithValidator c w2 = (None, w3)"
    and "Rules c w3 = (rules, w4)"
    and "validation_Struct c w4 rules = (None, w5)"
    and "\<forall>(k, vs) \<in> set (URL_Query req). vs \<noteq> []"
  shows "returned (Validate f64 c r request req w) = Returned None
         \<and> heap_after (Validate f64 c r request req w)
             = store r (snd (ParseQuery f64 (load r w5) req)) w5
         \<and> CallParseQuery \<in> set (calls (Validate f64 c r request req w))"
proof -
  have "fst (ParseQuery f64 (load r w5) req) = None"
    using assms(8) by (simp only: ParseQuery_panic rangeQueryParams_no_panic)
  then obtain r' where "ParseQuery f64 (load r w5) req = (None, r')"
    by (cases "ParseQuery f64 (load r w5) req") simp
  with assms(1-7) show ?thesis
    by (simp add: Validate_def io_ReadAll_def)
qed

theorem Validate_success_merges_into_receiver_witness:
  "content (Body (example_request ''{}'')) = Inr ''{}''
   \<and> returned (Validate Some example_collaborators embedded Pointer (example_request ''{}'')
        example_heap0) = Returned None
   \<and> heap_after (Validate Some example_collaborators embedded Pointer (example_request ''{}'')
        example_heap0)
      = \<lparr>entity_Request =
           \<lparr>Query = Some [''age'' \<mapsto> AnyInt 30, ''active'' \<mapsto> AnyBool True,
              ''ratio'' \<mapsto> AnyFloat64 ''1.5'', ''tag'' \<mapsto> AnyString ''x'',
              ''page'' \<mapsto> AnyInt 1]\<rparr>,
         entity_name = ''{}'', lone_Request = \<lparr>Query = None\<rparr>\<rparr>"
proof -
  let ?w1 = "example_heap0\<lparr>entity_name := ''{}''\<rparr>"
  have h2: "content (Body (example_request ''{}'')) = Inr ''{}''"
    by (simp add: example_request_def)
  have h3: "json_Unmarshal example_collaborators ''{}'' example_heap0 = (None, ?w1)"
    by (simp add: example_collaborators_def)
  have h4: "PrepareForValidation example_collaborators ?w1 = (None, ?w1)"
    by (simp add: example_collaborators_def)
  have h5: "WithValidator example_collaborators ?w1 = (None, ?w1)"
    by (simp add: example_collaborators_def)
  have h6: "Rules example_collaborators ?w1 = ([''name''], ?w1)"
    by (simp add: example_collaborators_def)
  have h7: "validation_Struct example_collaborators ?w1 [''name''] = (None, ?w1)"
    by (simp add: example_collaborators_def)
  have h8: "\<forall>(k, vs) \<in> set (URL_Query (example_request ''{}'')). vs \<noteq> []"
    by (simp add: example_request_def)
  have q: "snd (ParseQuery Some (load embedded ?w1) (example_request ''{}''))
      = \<lparr>Query = Some [''age'' \<mapsto> AnyInt 30, ''active'' \<mapsto> AnyBool True,
              ''ratio'' \<mapsto> AnyFloat64 ''1.5'', ''tag'' \<mapsto> AnyString ''x'',
              ''page'' \<mapsto> AnyInt 1]\<rparr>"
    by (simp add: example_eval strconv_eval)
  from Validate_success_merges_into_receiver [OF refl h2 h3 h4 h5 h6 h7 h8, of Some embedded]
    h2 h8 q
  show ?thesis by (simp add: embedded_def example_heap0_def)
qed

text \<open>
  Claim C2 as stated fails: called on a \<^verbatim>\<open>Request\<close> that is not the one embedded
  in the target, \<^verbatim>\<open>Validate\<close> succeeds and leaves the \<^verbatim>\<open>Query\<close> field of
  the target's embedded \<^verbatim>\<open>Request\<close> nil; the entries are in the receiver.
\<close>

theorem lone_receiver_keeps_target_Query_nil:
  "returned (Validate Some example_collaborators lone Pointer (example_request ''{}'')
       example_heap0) = Returned None
   \<and> Query (entity_Request (heap_after (Validate Some example_collaborators lone Pointer
       (example_request ''{}'') example_heap0))) = None
   \<and> Query (lone_Request (heap_after (Validate Some example_collaborators lone Pointer
       (example_request ''{}'') example_heap0))) \<noteq> None"
  by (simp add: example_eval strconv_eval)

lemma Validate_error_heap:
  "case returned (Validate f64 c r request req w) of
     Returned (Some e) \<Rightarrow>
       (case e of
          InvalidTargetError msg \<Rightarrow>
            request \<noteq> Pointer \<and> calls (Validate f64 c r request req w) = []
            \<and> heap_after (Validate f64 c r request req w) = w
            \<and> body_after (Validate f64 c r request req w) = Body req
        | IOError err \<Rightarrow>
            content (Body req) = Inl err
            \<and> calls (Validate f64 c r request req w) = [CallReadAll]
            \<and> heap_after (Validate f64 c r request req w) = w
        | DecodeError err \<Rightarrow>
            (\<exists>bytes w1. content (Body req) = Inr bytes
               \<and> json_Unmarshal c bytes w = (Some err, w1)
               \<and> calls (Validate f64 c r request req w)
                   = [CallReadAll, CallUnmarshal, CallClose]
               \<and> heap_after (Validate f64 c r request req w) = w1)
        | PrepareError err \<Rightarrow>
            (\<exists>bytes w1 w2. content (Body req) = Inr bytes
               \<and> json_Unmarshal c bytes w = (None, w1)
               \<and> PrepareForValidation c w1 = (Some err, w2)
               \<and> calls (Validate f64 c r request req w)
                   = [CallReadAll, CallUnmarshal, CallPrepareForValidation, CallClose]
               \<and> heap_after (Validate f64 c r request req w) = w2)
        | HookError err \<Rightarrow>
            (\<exists>bytes w1 w2 w3. content (Body req) = Inr bytes
               \<and> json_Unmarshal c bytes w = (None, w1)
               \<and> PrepareForValidation c w1 = (None, w2)
               \<and> WithValidator c w2 = (Some err, w3)
               \<and> calls (Validate f64 c r request req w)
                   = [CallReadAll, CallUnmarshal, CallPrepareForValidation,
                      CallWithValidator, CallClose]
               \<and> heap_after (Validate f64 c r request req w) = w3)
        | ValidationError err \<Rightarrow>
            (\<exists>bytes w1 w2 w3 rules w4 w5. content (Body req) = Inr bytes
               \<and> json_Unmarshal c bytes w = (None, w1)
               \<and> PrepareForValidation c w1 = (None, w2)
               \<and> WithValidator c w2 = (None, w3)
               \<and> Rules c w3 = (rules, w4)
               \<and> validation_Struct c w4 rules = (Some err, w5)
               \<and> calls (Validate f64 c r request req w)
                   = [CallReadAll, CallUnmarshal, CallPrepareForValidation,
                      CallWithValidator, CallRules, CallStruct, CallClose]
               \<and> heap_after (Validate f64 c r request req w) = w5))
   | _ \<Rightarrow> True"
proof (cases request)
  case Pointer
  then show ?thesis
    by (simp add: Validate_def io_ReadAll_def split: prod.split option.split sum.split)
qed (simp_all add: Validate_def)

text \<open>
  Claim C3, amended. When \<^verbatim>\<open>Validate\<close> returns an error, the stages before the
  failing one succeeded, the error is the one the failing stage gave, and nothing ran
  after it: the heap is exactly the heap the failing stage left (the initial heap for an
  invalid target or a read fault), the calls made are those up to the failing stage
  (followed by the deferred close once the body was read), and \<^verbatim>\<open>ParseQuery\<close> is
  not among them. So \<^verbatim>\<open>Query\<close> holds what the decoder and the hooks left in it:
  \<^verbatim>\<open>Validate\<close>'s own query parsing has not assigned it.
\<close>

theorem Validate_error_leaves_failing_stage_heap:
  assumes "returned (Validate f64 c r request req w) = Returned (Some e)"
  shows "CallParseQuery \<notin> set (calls (Validate f64 c r request req w))
    \<and> (case e of
          InvalidTargetError msg \<Rightarrow>
            request \<noteq> Pointer \<and> calls (Validate f64 c r request req w) = []
            \<and> heap_after (Validate f64 c r request req w) = w
            \<and> body_after (Validate f64 c r request req w) = Body req
        | IOError err \<Rightarrow>
            content (Body req) = Inl err
            \<and> calls (Validate f64 c r request req w) = [CallReadAll]
            \<and> heap_after (Validate f64 c r request req w) = w
        | DecodeError err \<Rightarrow>
            (\<exists>bytes w1. content (Body req) = Inr bytes
               \<and> json_Unmarshal c bytes w = (Some err, w1)
               \<and> calls (Validate f64 c r request req w)
                   = [CallReadAll, CallUnmarshal, CallClose]
               \<and> heap_after (Validate f64 c r request req w) = w1)
        | PrepareError err \<Rightarrow>
            (\<exists>bytes w1 w2. content (Body req) = Inr bytes
               \<and> json_Unmarshal c bytes w = (None, w1)
               \<and> PrepareForValidation c w1 = (Some err, w2)
               \<and> calls (Validate f64 c r request req w)
                   = [CallReadAll, CallUnmarshal, CallPrepareForValidation, CallClose]
               \<and> heap_after (Validate f64 c r request req w) = w2)
        | HookError err \<Rightarrow>
            (\<exists>bytes w1 w2 w3. content (Body req) = Inr bytes
               \<and> json_Unmarshal c bytes w = (None, w1)
               \<and> PrepareForValidation c w1 = (None, w2)
               \<and> WithValidator c w2 = (Some err, w3)
               \<and> calls (Validate f64 c r request req w)
                   = [CallReadAll, CallUnmarshal, CallPrepareForValidation,
                      CallWithValidator, CallClose]
               \<and> heap_after (Validate f64 c r request req w) = w3)
        | ValidationError err \<Rightarrow>
            (\<exists>bytes w1 w2 w3 rules w4 w5. content (Body req) = Inr bytes
               \<and> json_Unmarshal c bytes w = (None, w1)
               \<and> PrepareForValidation c w1 = (None, w2)
               \<and> WithValidator c w2 = (None, w3)
               \<and> Rules c w3 = (rules, w4)
               \<and> validation_Struct c w4 rules = (Some err, w5)
               \<and> calls (Validate f64 c r request req w)
                   = [CallReadAll, CallUnmarshal, CallPrepareForValidation,
                      CallWithValidator, CallRules, CallStruct, CallClose]
               \<and> heap_after (Validate f64 c r request req w) = w5))"
    (is "_ \<and> ?stage")
proof -
  from Validate_error_heap [where ?f64.0 = f64 and c = c and r = r and request = request
      and req = req and w = w] assms
  have stage: ?stage by simp
  then have "CallParseQuery \<notin> set (calls (Validate f64 c r request req w))"
    by (cases e) auto
  with stage show ?thesis by (rule_tac conjI)
qed

theorem Validate_error_leaves_failing_stage_heap_witness:
  "returned (Validate Some strict_collaborators embedded Pointer (example_request ''{}'')
       example_heap0) = Returned (Some (ValidationError ''name is required''))
   \<and> CallParseQuery \<notin> set (calls (Validate Some strict_collaborators embedded Pointer
       (example_request ''{}'') example_heap0))
   \<and> heap_after (Validate Some strict_collaborators embedded Pointer
       (example_request ''{}'') example_heap0)
     = \<lparr>entity_Request = \<lparr>Query = Some [''role'' \<mapsto> AnyString ''admin'']\<rparr>,
        entity_name = [], lone_Request = \<lparr>Query = None\<rparr>\<rparr>"
proof -
  have h: "returned (Validate Some strict_collaborators embedded Pointer
       (example_request ''{}'') example_heap0)
     = Returned (Some (ValidationError ''name is required''))"
    by (simp add: Validate_def io_ReadAll_def strict_collaborators_def example_request_def
        example_heap0_def)
  from Validate_error_leaves_failing_stage_heap [OF h] h show ?thesis
    by (auto simp: strict_collaborators_def example_request_def example_heap0_def)
qed

text \<open>
  Claim C3 as stated fails: the \<^verbatim>\<open>Query\<close> field can be assigned on a run that
  returns an error, by an earlier stage. Here the decoder fills it from the body and the
  validator then rejects the empty name.
\<close>

theorem decoder_assigns_Query_before_validation_fails:
  "returned (Validate Some strict_collaborators embedded Pointer (example_request ''{}'')
       example_heap0) = Returned (Some (ValidationError ''name is required''))
   \<and> Query (entity_Request example_heap0) = None
   \<and> Query (entity_Request (heap_after (Validate Some strict_collaborators embedded Pointer
       (example_request ''{}'') example_heap0)))
      = Some [''role'' \<mapsto> AnyString ''admin'']"
  by (simp add: Validate_def io_ReadAll_def strict_collaborators_def example_request_def
      example_heap0_def)

text \<open>
  Claim C6. A target that is not a non-nil pointer (the nil interface, a value that is
  not a pointer, a nil pointer) makes \<^verbatim>\<open>Validate\<close> return the invalid-target error
  with no call made: the body is as it was, unread, and so is the heap.
\<close>

theorem Validate_rejects_invalid_target:
  assumes "request \<noteq> Pointer"
  shows "returned (Validate f64 c r request req w)
           = Returned (Some (InvalidTargetError errInvalidTarget))
         \<and> body_after (Validate f64 c r request req w) = Body req
         \<and> calls (Validate f64 c r request req w) = []
         \<and> heap_after (Validate f64 c r request req w) = w"
  using assms by (cases request) (simp_all add: Validate_def)

theorem Validate_rejects_invalid_target_witness:
  "NilPointer \<noteq> Pointer
   \<and> returned (Validate Some example_collaborators embedded NilPointer
        (example_request ''{}'') example_heap0)
      = Returned (Some (InvalidTargetError errInvalidTarget))
   \<and> reads (body_after (Validate Some example_collaborators embedded NilPointer
        (example_request ''{}'') example_heap0)) = 0"
proof -
  have h: "NilPointer \<noteq> Pointer" by simp
  from Validate_rejects_invalid_target [OF h, of Some example_collaborators embedded
      "example_request ''{}''" example_heap0]
  show ?thesis by (simp add: example_request_def)
qed

text \<open>
  Claim C7. When the target is a non-nil pointer, the body is read, and
  \<^verbatim>\<open>json.Unmarshal\<close> rejects it, \<^verbatim>\<open>Validate\<close> returns that error as the
  decode error; the calls are the read, the decoding and the deferred close, so neither
  \<^verbatim>\<open>PrepareForValidation\<close> nor any later stage is invoked; the heap is the one the
  decoder left.
\<close>

theorem Validate_decode_error_skips_hooks:
  assumes "request = Pointer"
    and "content (Body req) = Inr bytes"
    and "json_Unmarshal c bytes w = (Some err, w1)"
  shows "returned (Validate f64 c r request req w) = Returned (Some (DecodeError err))
         \<and> calls (Validate f64 c r request req w) = [CallReadAll, CallUnmarshal, CallClose]
         \<and> CallPrepareForValidation \<notin> set (calls (Validate f64 c r request req w))
         \<and> heap_after (Validate f64 c r request req w) = w1"
  using assms by (simp add: Validate_def io_ReadAll_def)

theorem Validate_decode_error_skips_hooks_witness:
  "content (Body (example_request ''oops'')) = Inr ''oops''
   \<and> json_Unmarshal example_collaborators ''oops'' example_heap0
       = (Some ''invalid character'', example_heap0)
   \<and> returned (Validate Some example_collaborators embedded Pointer
        (example_request ''oops'') example_heap0)
      = Returned (Some (DecodeError ''invalid character''))
   \<and> CallPrepareForValidation \<notin> set (calls (Validate Some example_collaborators embedded
        Pointer (example_request ''oops'') example_heap0))"
proof -
  have h2: "content (Body (example_request ''oops'')) = Inr ''oops''"
    by (simp add: example_request_def)
  have h3: "json_Unmarshal example_collaborators ''oops'' example_heap0
       = (Some ''invalid character'', example_heap0)"
    by (simp add: example_collaborators_def)
  from Validate_decode_error_skips_hooks [OF refl h2 h3, of Some embedded] h2 h3
  show ?thesis by simp
qed

end
